theory Spec2Isabelle
  imports Main
begin

section \<open>JavaScript values and the object store\<close>

text \<open>
  The facade of \<^verbatim>\<open>src/lib/prisma.ts\<close> receives argument bags typed \<^verbatim>\<open>any\<close>, copies
  them with an object spread and deletes a key from the copy. Objects are therefore kept
  in an explicit store: a value is a primitive or a reference to an object, and an object
  is the list of its own enumerable properties in insertion order. Numbers are the
  integer-valued ones; inherited properties, accessors and symbols are not modelled.
\<close>

type_synonym addr = nat

datatype jsval = Undefined | Null | Bool bool | Num int | Str string | Ref addr

type_synonym obj = "(string \<times> jsval) list"

type_synonym store = "obj list"

text \<open>ToBoolean, as used by \<^verbatim>\<open>if (x)\<close> and \<^verbatim>\<open>x || y\<close>.\<close>

fun truthy :: "jsval \<Rightarrow> bool" where
  "truthy Undefined = False"
| "truthy Null = False"
| "truthy (Bool b) = b"
| "truthy (Num n) = (n \<noteq> 0)"
| "truthy (Str s) = (s \<noteq> [])"
| "truthy (Ref a) = True"

text \<open>Decimal rendering of an array index, the property key of a string's character.\<close>

fun string_of_nat :: "nat \<Rightarrow> string" where
  "string_of_nat n =
     (if n < 10 then [char_of (48 + n)]
      else string_of_nat (n div 10) @ [char_of (48 + n mod 10)])"

declare string_of_nat.simps [simp del]

fun index_props :: "nat \<Rightarrow> string \<Rightarrow> obj" where
  "index_props i [] = []"
| "index_props i (c # cs) = (string_of_nat i, Str [c]) # index_props (Suc i) cs"

text \<open>
  The own enumerable properties that \<^verbatim>\<open>{...v}\<close> and a destructuring pattern see:
  those of the referenced object, the characters of a string, none for the other
  primitives (and none for \<^verbatim>\<open>undefined\<close> and \<^verbatim>\<open>null\<close>, which a spread skips).
\<close>

fun own_props :: "store \<Rightarrow> jsval \<Rightarrow> obj" where
  "own_props h (Ref a) = (if a < length h then h ! a else [])"
| "own_props h (Str s) = index_props 0 s"
| "own_props h v = []"

text \<open>
  Property read \<^verbatim>\<open>v?.key\<close> for a key that is neither an index nor built in:
  \<^verbatim>\<open>undefined\<close> unless the object has the key.
\<close>

definition get_prop :: "store \<Rightarrow> jsval \<Rightarrow> string \<Rightarrow> jsval" where
  "get_prop h v key = (case map_of (own_props h v) key of Some x \<Rightarrow> x | None \<Rightarrow> Undefined)"

definition has_key :: "string \<Rightarrow> obj \<Rightarrow> bool" where
  "has_key key ps = (key \<in> set (map fst ps))"

definition delete_key :: "string \<Rightarrow> obj \<Rightarrow> obj" where
  "delete_key key ps = filter (\<lambda>p. fst p \<noteq> key) ps"

text \<open>A new object gets the next free address.\<close>

definition alloc :: "obj \<Rightarrow> store \<Rightarrow> addr \<times> store" where
  "alloc ps h = (length h, h @ [ps])"

text \<open>\<^verbatim>\<open>delete o[key]\<close> on the object at address \<open>a\<close>.\<close>

definition delete_prop :: "addr \<Rightarrow> string \<Rightarrow> store \<Rightarrow> store" where
  "delete_prop a key h = (if a < length h then h[a := delete_key key (h ! a)] else h)"

section \<open>Write classification\<close>

definition WRITE_METHODS :: "string list" where
  "WRITE_METHODS =
     [''create'', ''update'', ''delete'', ''upsert'',
      ''createMany'', ''updateMany'', ''deleteMany'']"

definition isWriteMethod :: "string \<Rightarrow> bool" where
  "isWriteMethod method = (method \<in> set WRITE_METHODS)"

section \<open>cleanOptions\<close>

text \<open>
  \<^verbatim>\<open>const cleaned = { ...args }; keys.forEach(key => delete cleaned[key]); return cleaned\<close>
\<close>

definition cleanOptions :: "jsval \<Rightarrow> string list \<Rightarrow> store \<Rightarrow> jsval \<times> store" where
  "cleanOptions args keys h =
     (let (cleaned, h1) = alloc (own_props h args) h;
          h2 = foldl (\<lambda>h' key. delete_prop cleaned key h') h1 keys
      in (Ref cleaned, h2))"

section \<open>Connections, calls and outcomes\<close>

text \<open>
  The two clients are external. What the facade does to them is recorded as the list of
  calls it makes, in order. A client answers a call from the calls made so far and the
  store, by returning a value (in practice a promise) or by throwing. A thrown value is an
  \<^verbatim>\<open>Error\<close> instance with its message, or anything else. The message of an
  \<^verbatim>\<open>Error\<close> instance can normally be assigned (\<open>ErrorObj\<close>); on a frozen error it
  is read-only (\<open>ReadOnlyError\<close>).
\<close>

datatype conn = PrismaMain | PrismaPrimary

datatype 'ops call =
    ModelCall conn string string jsval
  | TransactionCall conn 'ops jsval
  | QueryRaw conn string
  | Disconnect conn

datatype thrown = ErrorObj string | ReadOnlyError string | NonError jsval

datatype 'v promise = Fulfilled 'v | Rejected thrown

datatype 'v ret = Plain 'v | Promise "'v promise"

datatype 'a completion = Normal 'a | Throw thrown

datatype console_entry = ConsoleLog string | ConsoleError string "thrown option"

record 'ops world =
  heap :: store
  calls :: "'ops call list"
  console :: "console_entry list"

type_synonym ('ops, 'v) backend = "'ops call list \<Rightarrow> store \<Rightarrow> 'ops call \<Rightarrow> 'v ret completion"

definition perform ::
  "('ops, 'v) backend \<Rightarrow> 'ops call \<Rightarrow> 'ops world \<Rightarrow> 'v ret completion \<times> 'ops world" where
  "perform db c w = (db (calls w) (heap w) c, w\<lparr>calls := calls w @ [c]\<rparr>)"

text \<open>\<^verbatim>\<open>await x\<close>: a rejected promise throws its reason, anything else gives its value.\<close>

fun await :: "'v ret completion \<Rightarrow> 'v completion" where
  "await (Throw e) = Throw e"
| "await (Normal (Plain v)) = Normal v"
| "await (Normal (Promise (Fulfilled v))) = Normal v"
| "await (Normal (Promise (Rejected e))) = Throw e"

section \<open>Method proxy for models\<close>

text \<open>The default parameter \<^verbatim>\<open>args: any = {}\<close>: a fresh empty object for \<^verbatim>\<open>undefined\<close>.\<close>

definition default_args :: "jsval \<Rightarrow> 'ops world \<Rightarrow> jsval \<times> 'ops world" where
  "default_args args w =
     (if args = Undefined
      then (let (a, h) = alloc [] (heap w) in (Ref a, w\<lparr>heap := h\<rparr>))
      else (args, w))"

text \<open>
  The module is strict code, where assigning to a read-only property throws a
  \<^verbatim>\<open>TypeError\<close> (the message is V8's, for an error named \<^verbatim>\<open>Error\<close>).
\<close>

definition read_only_assign :: "string \<Rightarrow> thrown" where
  "read_only_assign message =
     ErrorObj (''Cannot assign to read only property '' @ [CHR 0x27] @ ''message'' @ [CHR 0x27]
               @ '' of object '' @ [CHR 0x27] @ ''Error: '' @ message @ [CHR 0x27])"

text \<open>
  The catch block: \<^verbatim>\<open>if (error instanceof Error) error.message = `${error.message} (${context})`\<close>
  with \<^verbatim>\<open>context = `Method: ${methodName}, Model: ${modelName}`\<close>; then \<^verbatim>\<open>throw error\<close>.
  The result is what leaves the catch block: the error with its new message, the
  \<^verbatim>\<open>TypeError\<close> of a failed assignment in place of the error, or the value that is not
  an \<^verbatim>\<open>Error\<close> instance as it was thrown.
\<close>

definition add_context :: "string \<Rightarrow> string \<Rightarrow> thrown \<Rightarrow> thrown" where
  "add_context methodName modelName error =
     (case error of
        ErrorObj message \<Rightarrow>
          (let context = ''Method: '' @ methodName @ '', Model: '' @ modelName
           in ErrorObj (message @ '' ('' @ context @ '')''))
      | ReadOnlyError message \<Rightarrow> read_only_assign message
      | NonError v \<Rightarrow> NonError v)"

text \<open>
  The function returned by the \<^verbatim>\<open>get\<close> trap of \<^verbatim>\<open>createMethodProxy(model, modelName)\<close>
  for the property \<open>method\<close>, applied to \<open>args\<close>. The target \<^verbatim>\<open>model\<close> is
  \<^verbatim>\<open>prismaMain[modelName]\<close>. The function is not \<^verbatim>\<open>async\<close> and does not await: what
  the client returns is returned as it is.
\<close>

definition createMethodProxy ::
  "('ops, 'v) backend \<Rightarrow> string \<Rightarrow> string \<Rightarrow> jsval \<Rightarrow> 'ops world
     \<Rightarrow> 'v ret completion \<times> 'ops world" where
  "createMethodProxy db modelName method args0 w0 =
     (let methodName = method;
          isWrite = isWriteMethod methodName;
          (args, w) = default_args args0 w0;
          (r, w') =
            (if isWrite then
               (if truthy (get_prop (heap w) args ''writeToPrimary'') then
                  (let (cleaned, h) = cleanOptions args [''writeToPrimary''] (heap w)
                   in perform db (ModelCall PrismaPrimary modelName method cleaned)
                        (w\<lparr>heap := h\<rparr>))
                else
                  (let (cleaned, h) = cleanOptions args [''writeToPrimary''] (heap w)
                   in perform db (ModelCall PrismaMain modelName method cleaned)
                        (w\<lparr>heap := h\<rparr>)))
             else perform db (ModelCall PrismaMain modelName method args) w)
      in (case r of
            Normal v \<Rightarrow> (Normal v, w')
          | Throw error \<Rightarrow> (Throw (add_context methodName modelName error), w')))"

section \<open>Transaction routing\<close>

text \<open>
  The \<^verbatim>\<open>async\<close> function that \<^verbatim>\<open>createPrismaProxy\<close> returns for the property
  \<^verbatim>\<open>$transaction\<close>. An \<^verbatim>\<open>async\<close> function returns a promise: fulfilled with the
  value its body returns, rejected with what its body throws.
\<close>

fun async_result :: "'a completion \<times> 'w \<Rightarrow> 'a promise \<times> 'w" where
  "async_result (Normal v, w) = (Fulfilled v, w)"
| "async_result (Throw e, w) = (Rejected e, w)"

definition alloc_obj :: "obj \<Rightarrow> 'ops world \<Rightarrow> jsval \<times> 'ops world" where
  "alloc_obj ps w = (let (a, h) = alloc ps (heap w) in (Ref a, w\<lparr>heap := h\<rparr>))"

definition error_message_or_unknown :: "thrown \<Rightarrow> string" where
  "error_message_or_unknown error =
     (case error of
        ErrorObj message \<Rightarrow> message
      | ReadOnlyError message \<Rightarrow> message
      | NonError v \<Rightarrow> ''Unknown error'')"

definition createPrismaProxy_transaction ::
  "('ops, 'v) backend \<Rightarrow> 'ops \<Rightarrow> jsval \<Rightarrow> 'ops world \<Rightarrow> 'v promise \<times> 'ops world" where
  "createPrismaProxy_transaction db args options w0 =
     async_result
       (let (opts, w1) = (if truthy options then (options, w0) else alloc_obj [] w0);
            writeToPrimary = get_prop (heap w1) opts ''writeToPrimary'';
            timeout = get_prop (heap w1) opts ''timeout'';
            (rest, w2) =
              alloc_obj
                (delete_key ''timeout'' (delete_key ''writeToPrimary'' (own_props (heap w1) opts)))
                w1;
            (passed, w3) = alloc_obj ((''timeout'', timeout) # own_props (heap w2) rest) w2;
            (r, w4) =
              (if truthy writeToPrimary
               then perform db (TransactionCall PrismaPrimary args passed) w3
               else perform db (TransactionCall PrismaMain args passed) w3)
        in (case await r of
              Normal v \<Rightarrow> (Normal v, w4)
            | Throw error \<Rightarrow>
                (Throw error,
                 w4\<lparr>console := console w4 @
                   [ConsoleError (''Transaction failed: '' @ error_message_or_unknown error)
                      None]\<rparr>)))"

section \<open>Health check\<close>

datatype health_status = Healthy | Unhealthy

record health =
  status :: health_status
  details :: string

text \<open>
  Outside the server the clients are \<^verbatim>\<open>undefined\<close>, and reading a member of
  \<^verbatim>\<open>undefined\<close> throws a \<^verbatim>\<open>TypeError\<close> (the message is V8's).
\<close>

definition undefined_read :: "string \<Rightarrow> thrown" where
  "undefined_read member =
     ErrorObj (''Cannot read properties of undefined (reading '' @ [CHR 0x27] @ member
               @ [CHR 0x27] @ '')'')"

definition checkDatabaseHealth ::
  "bool \<Rightarrow> ('ops, 'v) backend \<Rightarrow> 'ops world \<Rightarrow> health promise \<times> 'ops world" where
  "checkDatabaseHealth isServer db w =
     async_result
       (let (r, w') =
              (if isServer then perform db (QueryRaw PrismaMain ''SELECT 1'') w
               else (Throw (undefined_read ''$queryRaw''), w))
        in (case await r of
              Normal v \<Rightarrow>
                (Normal \<lparr>status = Healthy, details = ''Database connection successful''\<rparr>, w')
            | Throw error \<Rightarrow>
                (Normal \<lparr>status = Unhealthy, details = error_message_or_unknown error\<rparr>, w')))"

section \<open>Graceful shutdown\<close>

text \<open>
  \<^verbatim>\<open>Promise.all\<close> on settled promises: the values when all are fulfilled, else a
  rejection. Which rejection comes first in time is not modelled; the list order is taken.
\<close>

fun promise_all :: "'v ret list \<Rightarrow> 'v list promise" where
  "promise_all [] = Fulfilled []"
| "promise_all (Promise (Rejected e) # ps) = Rejected e"
| "promise_all (Promise (Fulfilled v) # ps) =
     (case promise_all ps of Fulfilled vs \<Rightarrow> Fulfilled (v # vs) | Rejected e \<Rightarrow> Rejected e)"
| "promise_all (Plain v # ps) =
     (case promise_all ps of Fulfilled vs \<Rightarrow> Fulfilled (v # vs) | Rejected e \<Rightarrow> Rejected e)"

definition disconnect_failed :: "thrown \<Rightarrow> 'ops world \<Rightarrow> unit completion \<times> 'ops world" where
  "disconnect_failed error w =
     (Normal (),
      w\<lparr>console := console w @ [ConsoleError ''Error disconnecting Prisma clients:'' (Some error)]\<rparr>)"

definition disconnectPrisma ::
  "bool \<Rightarrow> ('ops, 'v) backend \<Rightarrow> 'ops world \<Rightarrow> unit promise \<times> 'ops world" where
  "disconnectPrisma isServer db w =
     async_result
       (if \<not> isServer then (Normal (), w)
        else
          (let (r1, w1) = perform db (Disconnect PrismaMain) w
           in (case r1 of
                 Throw error \<Rightarrow> disconnect_failed error w1
               | Normal p1 \<Rightarrow>
                   (let (r2, w2) = perform db (Disconnect PrismaPrimary) w1
                    in (case r2 of
                          Throw error \<Rightarrow> disconnect_failed error w2
                        | Normal p2 \<Rightarrow>
                            (case promise_all [p1, p2] of
                               Rejected error \<Rightarrow> disconnect_failed error w2
                             | Fulfilled vs \<Rightarrow>
                                 (Normal (),
                                  w2\<lparr>console := console w2 @
                                    [ConsoleLog ''Prisma clients disconnected successfully'']\<rparr>)))))))"

section \<open>Environment validation and the two clients\<close>

record env =
  DATABASE_URL :: "string option"
  DATABASE_PRIMARY_URL :: "string option"
  NODE_ENV :: "string option"

definition startsWith :: "string \<Rightarrow> string \<Rightarrow> bool" where
  "startsWith s p = (take (length p) s = p)"

fun includes_sub :: "string \<Rightarrow> string \<Rightarrow> bool" where
  "includes_sub [] p = (p = [])"
| "includes_sub (c # cs) p = (startsWith (c # cs) p \<or> includes_sub cs p)"

definition validateEnvironment :: "bool \<Rightarrow> env \<Rightarrow> unit completion" where
  "validateEnvironment isServer e =
     (if \<not> isServer then Normal ()
      else
        (case DATABASE_URL e of
           None \<Rightarrow> Throw (ErrorObj ''Missing required env variable: DATABASE_URL'')
         | Some dbUrl \<Rightarrow>
             if dbUrl = [] then Throw (ErrorObj ''Missing required env variable: DATABASE_URL'')
             else if NODE_ENV e = None \<or> NODE_ENV e = Some []
               then Throw (ErrorObj ''Missing required env variable: NODE_ENV'')
             else if \<not> startsWith dbUrl ''postgresql://'' \<and> \<not> startsWith dbUrl ''mysql://''
               then Throw (ErrorObj
                      ''Invalid DATABASE_URL. Must start with postgresql:// or mysql://'')
             else Normal ()))"

record engine =
  connectionLimit :: nat
  pool_min :: nat
  pool_max :: nat

record PrismaClientOptions =
  errorFormat :: string
  datasources_db_url :: string
  internal_engine :: "engine option"

text \<open>
  The parameter is typed \<^verbatim>\<open>string\<close>, and the callers assert it with \<^verbatim>\<open>!\<close>; at run
  time an \<^verbatim>\<open>undefined\<close> URL makes \<^verbatim>\<open>databaseUrl.includes\<close> throw.
\<close>

definition createPrismaOptions :: "string option \<Rightarrow> PrismaClientOptions completion" where
  "createPrismaOptions databaseUrl =
     (case databaseUrl of
        None \<Rightarrow> Throw (undefined_read ''includes'')
      | Some url \<Rightarrow>
          Normal \<lparr>errorFormat = ''pretty'', datasources_db_url = url,
                  internal_engine =
                    (if includes_sub url ''postgresql://''
                     then Some \<lparr>connectionLimit = 1, pool_min = 0, pool_max = 1\<rparr>
                     else None)\<rparr>)"

text \<open>\<^verbatim>\<open>a || b\<close> on two environment variables: \<open>b\<close> when \<open>a\<close> is unset or empty.\<close>

definition env_or :: "string option \<Rightarrow> string option \<Rightarrow> string option" where
  "env_or a b = (case a of None \<Rightarrow> b | Some s \<Rightarrow> if s = [] then b else Some s)"

text \<open>A client is known by the options it was constructed with.\<close>

record globalForPrisma =
  global_prismaMain :: "PrismaClientOptions option"
  global_prismaPrimary :: "PrismaClientOptions option"

record clients =
  prismaMain :: "PrismaClientOptions option"
  prismaPrimary :: "PrismaClientOptions option"
  globals :: globalForPrisma

text \<open>\<^verbatim>\<open>cached ?? new PrismaClient(createPrismaOptions(url))\<close>\<close>

definition cached_or_new ::
  "PrismaClientOptions option \<Rightarrow> string option \<Rightarrow> PrismaClientOptions completion" where
  "cached_or_new cached url =
     (case cached of Some client \<Rightarrow> Normal client | None \<Rightarrow> createPrismaOptions url)"

text \<open>The module's top-level statements up to the hot-reload assignment, in order.\<close>

definition module_init :: "bool \<Rightarrow> env \<Rightarrow> globalForPrisma \<Rightarrow> clients completion" where
  "module_init isServer e g =
     (case validateEnvironment isServer e of
        Throw error \<Rightarrow> Throw error
      | Normal u \<Rightarrow>
          if \<not> isServer then Normal \<lparr>prismaMain = None, prismaPrimary = None, globals = g\<rparr>
          else
            (case cached_or_new (global_prismaMain g) (DATABASE_URL e) of
               Throw error \<Rightarrow> Throw error
             | Normal main \<Rightarrow>
                 (case cached_or_new (global_prismaPrimary g)
                         (env_or (DATABASE_PRIMARY_URL e) (DATABASE_URL e)) of
                    Throw error \<Rightarrow> Throw error
                  | Normal primary \<Rightarrow>
                      Normal \<lparr>prismaMain = Some main, prismaPrimary = Some primary,
                              globals =
                                (if NODE_ENV e \<noteq> Some ''production''
                                 then \<lparr>global_prismaMain = Some main,
                                       global_prismaPrimary = Some primary\<rparr>
                                 else g)\<rparr>)))"

section \<open>Example inputs\<close>

text \<open>
  A store with the argument bag \<^verbatim>\<open>{data: {name: "X"}, writeToPrimary: true}\<close> at
  address 0, its \<^verbatim>\<open>data\<close> object at 1, and the bag
  \<^verbatim>\<open>{where: {name: "X"}, writeToPrimary: false}\<close> at 2.
\<close>

definition example_store :: store where
  "example_store =
     [[(''data'', Ref 1), (''writeToPrimary'', Bool True)],
      [(''name'', Str ''X'')],
      [(''where'', Ref 1), (''writeToPrimary'', Bool False)]]"

definition example_world :: "unit world" where
  "example_world = \<lparr>heap = example_store, calls = [], console = []\<rparr>"

text \<open>Clients that answer every call the same way.\<close>

definition fulfilling_backend :: "(unit, jsval) backend" where
  "fulfilling_backend history h c = Normal (Promise (Fulfilled Null))"

definition error_throwing_backend :: "(unit, jsval) backend" where
  "error_throwing_backend history h c = Throw (ErrorObj ''unique violation'')"

definition string_throwing_backend :: "(unit, jsval) backend" where
  "string_throwing_backend history h c = Throw (NonError (Str ''unique violation''))"

definition rejecting_backend :: "(unit, jsval) backend" where
  "rejecting_backend history h c = Normal (Promise (Rejected (ErrorObj ''unique violation'')))"

text \<open>
  Transaction options \<^verbatim>\<open>{writeToPrimary: true, timeout: 5000, isolationLevel: "Serializable"}\<close>
  at address 0 and \<^verbatim>\<open>{maxWait: 2000}\<close> at address 1.
\<close>

definition options_store :: store where
  "options_store =
     [[(''writeToPrimary'', Bool True), (''timeout'', Num 5000),
       (''isolationLevel'', Str ''Serializable'')],
      [(''maxWait'', Num 2000)]]"

definition options_world :: "unit world" where
  "options_world = \<lparr>heap = options_store, calls = [], console = []\<rparr>"

text \<open>A client that throws when a call is repeated, as on a second disconnect.\<close>

definition closing_once_backend :: "(unit, jsval) backend" where
  "closing_once_backend history h c =
     (if c \<in> set history then Throw (ErrorObj ''already disconnected'')
      else Normal (Promise (Fulfilled Null)))"

text \<open>An environment with a main URL only, and a process without cached clients.\<close>

definition example_env :: env where
  "example_env =
     \<lparr>DATABASE_URL = Some ''postgresql://db.internal/shop'',
      DATABASE_PRIMARY_URL = None,
      NODE_ENV = Some ''production''\<rparr>"

definition empty_globals :: globalForPrisma where
  "empty_globals = \<lparr>global_prismaMain = None, global_prismaPrimary = None\<rparr>"

section \<open>Basic facts\<close>

lemmas run_defs =
  createMethodProxy_def default_args_def cleanOptions_def alloc_def delete_prop_def
  delete_key_def perform_def get_prop_def isWriteMethod_def WRITE_METHODS_def Let_def
  has_key_def add_context_def example_world_def example_store_def

lemma cleanOptions_single:
  "cleanOptions args [key] h = (Ref (length h), h @ [delete_key key (own_props h args)])"
  by (simp add: cleanOptions_def alloc_def delete_prop_def)

lemma has_key_delete_key: "\<not> has_key key (delete_key key ps)"
  by (auto simp: has_key_def delete_key_def)

lemma get_prop_truthy_not_Undefined:
  "truthy (get_prop h args key) \<Longrightarrow> args \<noteq> Undefined"
  by (auto simp: get_prop_def)

lemma default_args_defined: "args \<noteq> Undefined \<Longrightarrow> default_args args w = (args, w)"
  by (simp add: default_args_def)

lemma default_args_Undefined:
  "default_args Undefined w = (Ref (length (heap w)), w\<lparr>heap := heap w @ [[]]\<rparr>)"
  by (simp add: default_args_def alloc_def)

text \<open>
  The declared type of the flag is \<^verbatim>\<open>writeToPrimary?: boolean\<close>. The code tests its
  truthiness; on a flag of the declared type that is the test for \<^verbatim>\<open>true\<close>.
\<close>

lemma truthy_boolean_flag:
  "flag \<in> {Undefined, Bool False, Bool True} \<Longrightarrow> truthy flag \<longleftrightarrow> flag = Bool True"
  by auto

text \<open>A write call: one call, on a fresh copy of the bag without the routing key.\<close>

lemma createMethodProxy_write:
  assumes "isWriteMethod method" and "default_args args0 w0 = (args, w)"
  shows "createMethodProxy db modelName method args0 w0 =
          (let h = heap w @ [delete_key ''writeToPrimary'' (own_props (heap w) args)];
               c = ModelCall (if truthy (get_prop (heap w) args ''writeToPrimary'')
                              then PrismaPrimary else PrismaMain)
                     modelName method (Ref (length (heap w)))
           in (case db (calls w) h c of
                 Normal v \<Rightarrow> Normal v
               | Throw error \<Rightarrow> Throw (add_context method modelName error),
               w\<lparr>heap := h, calls := calls w @ [c]\<rparr>))"
  using assms
  by (simp add: createMethodProxy_def cleanOptions_single perform_def Let_def
        split: completion.splits)

text \<open>A read call: one call to the main client, on the bag itself.\<close>

lemma createMethodProxy_read:
  assumes "\<not> isWriteMethod method" and "default_args args0 w0 = (args, w)"
  shows "createMethodProxy db modelName method args0 w0 =
          (let c = ModelCall PrismaMain modelName method args
           in (case db (calls w) (heap w) c of
                 Normal v \<Rightarrow> Normal v
               | Throw error \<Rightarrow> Throw (add_context method modelName error),
               w\<lparr>calls := calls w @ [c]\<rparr>))"
  using assms
  by (simp add: createMethodProxy_def perform_def Let_def split: completion.splits)

text \<open>The default parameter only adds an empty object to the store.\<close>

lemma default_args_frame:
  assumes "default_args args w = (args', w1)"
  shows "calls w1 = calls w" and "console w1 = console w"
    and "own_props (heap w1) args' = own_props (heap w) args"
    and "\<exists>new. heap w1 = heap w @ new"
  using assms
  by (cases "args = Undefined"; auto simp: default_args_Undefined default_args_defined)+

text \<open>
  Every call through the proxy makes exactly one call to a client, leaves the objects
  of the store as they were, writes nothing to the console, and answers with the client's
  answer, a thrown value passing through the catch block.
\<close>

lemma createMethodProxy_result:
  "let (r, w') = createMethodProxy db modelName method args w
   in \<exists>c new. calls w' = calls w @ [c] \<and> heap w' = heap w @ new \<and> console w' = console w \<and>
        r = (case db (calls w) (heap w') c of
               Normal v \<Rightarrow> Normal v
             | Throw error \<Rightarrow> Throw (add_context method modelName error))"
proof -
  obtain args' w1 where d: "default_args args w = (args', w1)"
    by (cases "default_args args w")
  from default_args_frame(4) [OF d] obtain new where new: "heap w1 = heap w @ new" ..
  note same = default_args_frame(1,2) [OF d]
  show ?thesis
  proof (cases "isWriteMethod method")
    case True
    from createMethodProxy_write [OF True d, of db modelName] same new show ?thesis
      by (simp add: Let_def)
  next
    case False
    from createMethodProxy_read [OF False d, of db modelName] same new show ?thesis
      by (simp add: Let_def)
  qed
qed

section \<open>Routing of entity method calls\<close>

text \<open>
  C1. A write call whose argument bag carries a true \<^verbatim>\<open>writeToPrimary\<close> makes exactly
  one call, to the primary client's method of the same entity, and the argument object
  it passes is a copy of the bag without the key \<^verbatim>\<open>writeToPrimary\<close>; the call's result
  is returned, its error thrown on. The code tests the flag for truthiness, of which
  \<^verbatim>\<open>true\<close> is the case of the declared type.
\<close>

theorem write_with_flag_reaches_primary:
  assumes "isWriteMethod method"
    and "truthy (get_prop (heap w) args ''writeToPrimary'')"
  shows "let (r, w') = createMethodProxy db modelName method args w;
             cleaned = Ref (length (heap w));
             forwarded = ModelCall PrismaPrimary modelName method cleaned
         in calls w' = calls w @ [forwarded] \<and>
            own_props (heap w') cleaned = delete_key ''writeToPrimary'' (own_props (heap w) args) \<and>
            \<not> has_key ''writeToPrimary'' (own_props (heap w') cleaned) \<and>
            r = (case db (calls w) (heap w') forwarded of
                   Normal v \<Rightarrow> Normal v
                 | Throw error \<Rightarrow> Throw (add_context method modelName error))"
proof -
  from assms(2) have "args \<noteq> Undefined"
    by (rule get_prop_truthy_not_Undefined)
  then have "default_args args w = (args, w)"
    by (rule default_args_defined)
  from createMethodProxy_write [OF assms(1) this] assms(2)
  have "createMethodProxy db modelName method args w =
          (case db (calls w) (heap w @ [delete_key ''writeToPrimary'' (own_props (heap w) args)])
                  (ModelCall PrismaPrimary modelName method (Ref (length (heap w)))) of
             Normal v \<Rightarrow> Normal v
           | Throw error \<Rightarrow> Throw (add_context method modelName error),
           w\<lparr>heap := heap w @ [delete_key ''writeToPrimary'' (own_props (heap w) args)],
             calls := calls w @ [ModelCall PrismaPrimary modelName method (Ref (length (heap w)))]\<rparr>)"
    by (simp add: Let_def)
  then show ?thesis
    by (simp add: Let_def has_key_delete_key)
qed

theorem write_with_flag_reaches_primary_witness:
  "isWriteMethod ''create'' \<and>
   truthy (get_prop (heap example_world) (Ref 0) ''writeToPrimary'') \<and>
   (let (r, w') = createMethodProxy fulfilling_backend ''product'' ''create'' (Ref 0) example_world
    in calls w' = [ModelCall PrismaPrimary ''product'' ''create'' (Ref 3)] \<and>
       own_props (heap w') (Ref 3) = [(''data'', Ref 1)] \<and>
       own_props (heap w') (Ref 1) = [(''name'', Str ''X'')] \<and>
       r = Normal (Promise (Fulfilled Null)))"
proof -
  have run: "createMethodProxy fulfilling_backend ''product'' ''create'' (Ref 0) example_world =
               (Normal (Promise (Fulfilled Null)),
                \<lparr>heap = example_store @ [[(''data'', Ref 1)]],
                 calls = [ModelCall PrismaPrimary ''product'' ''create'' (Ref 3)],
                 console = []\<rparr>)"
    by (simp add: run_defs fulfilling_backend_def)
  show ?thesis
    using write_with_flag_reaches_primary
            [of "''create''" example_world "Ref 0" fulfilling_backend "''product''"]
    by (simp add: run) (simp add: run_defs)
qed

text \<open>
  C2. A call that is not a write with a true flag makes exactly one call, to the main
  client, and none to the primary. For a write (flag absent or false) the argument object
  passed is a copy of the bag without the key \<^verbatim>\<open>writeToPrimary\<close>. For a read the bag
  itself is passed, whatever flag it carries, and the store is untouched; a read called
  without a bag passes the empty object of the default parameter. The hypothesis is the
  code's own test, truthiness, which on a flag of the declared type is the test for
  \<^verbatim>\<open>true\<close> (\<open>truthy_boolean_flag\<close>).
\<close>

theorem other_calls_reach_main_only:
  assumes "\<not> (isWriteMethod method \<and> truthy (get_prop (heap w) args ''writeToPrimary''))"
  shows "let (r, w') = createMethodProxy db modelName method args w
         in \<exists>arg. calls w' = calls w @ [ModelCall PrismaMain modelName method arg] \<and>
              (isWriteMethod method \<longrightarrow>
                 own_props (heap w') arg =
                   delete_key ''writeToPrimary'' (own_props (heap w) args) \<and>
                 \<not> has_key ''writeToPrimary'' (own_props (heap w') arg)) \<and>
              (\<not> isWriteMethod method \<longrightarrow>
                 own_props (heap w') arg = own_props (heap w) args \<and>
                 (args \<noteq> Undefined \<longrightarrow> arg = args \<and> heap w' = heap w))"
proof (cases "args = Undefined")
  case True
  note d = default_args_Undefined [of w]
  show ?thesis
  proof (cases "isWriteMethod method")
    case w: True
    show ?thesis
      using createMethodProxy_write [OF w d, of db modelName] True w
      by (simp add: Let_def has_key_def get_prop_def delete_key_def nth_append)
  next
    case r: False
    show ?thesis
      using createMethodProxy_read [OF r d, of db modelName] True r
      by (simp add: Let_def)
  qed
next
  case False
  note d = default_args_defined [OF False, of w]
  show ?thesis
  proof (cases "isWriteMethod method")
    case w: True
    with assms have "\<not> truthy (get_prop (heap w) args ''writeToPrimary'')"
      by simp
    then show ?thesis
      using createMethodProxy_write [OF w d, of db modelName] w
      by (simp add: Let_def has_key_delete_key)
  next
    case r: False
    show ?thesis
      using createMethodProxy_read [OF r d, of db modelName] r
      by (simp add: Let_def)
  qed
qed

theorem other_calls_reach_main_only_witness:
  "\<not> (isWriteMethod ''update'' \<and>
      truthy (get_prop (heap example_world) (Ref 2) ''writeToPrimary'')) \<and>
   isWriteMethod ''update'' \<and>
   (let (r, w') = createMethodProxy fulfilling_backend ''product'' ''update'' (Ref 2) example_world
    in calls w' = [ModelCall PrismaMain ''product'' ''update'' (Ref 3)] \<and>
       own_props (heap w') (Ref 3) = [(''where'', Ref 1)]) \<and>
   \<not> (isWriteMethod ''findMany'' \<and>
      truthy (get_prop (heap example_world) (Ref 0) ''writeToPrimary'')) \<and>
   \<not> isWriteMethod ''findMany'' \<and>
   (let (r, w') = createMethodProxy fulfilling_backend ''product'' ''findMany'' (Ref 0) example_world
    in calls w' = [ModelCall PrismaMain ''product'' ''findMany'' (Ref 0)] \<and>
       heap w' = heap example_world)"
proof -
  have run_update:
    "createMethodProxy fulfilling_backend ''product'' ''update'' (Ref 2) example_world =
       (Normal (Promise (Fulfilled Null)),
        \<lparr>heap = example_store @ [[(''where'', Ref 1)]],
         calls = [ModelCall PrismaMain ''product'' ''update'' (Ref 3)],
         console = []\<rparr>)"
    by (simp add: run_defs fulfilling_backend_def)
  have run_findMany:
    "createMethodProxy fulfilling_backend ''product'' ''findMany'' (Ref 0) example_world =
       (Normal (Promise (Fulfilled Null)),
        \<lparr>heap = example_store,
         calls = [ModelCall PrismaMain ''product'' ''findMany'' (Ref 0)],
         console = []\<rparr>)"
    by (simp add: run_defs fulfilling_backend_def)
  show ?thesis
    using other_calls_reach_main_only
            [of "''update''" example_world "Ref 2" fulfilling_backend "''product''"]
          other_calls_reach_main_only
            [of "''findMany''" example_world "Ref 0" fulfilling_backend "''product''"]
    by (simp add: run_update run_findMany) (simp add: run_defs)
qed

text \<open>
  C3, as stated, fails: a read with \<^verbatim>\<open>{data: ..., writeToPrimary: true}\<close> hands that
  very object, key included, to the main client.
\<close>

theorem read_forwards_routing_key_counterexample:
  "calls (snd (createMethodProxy fulfilling_backend ''product'' ''findMany'' (Ref 0) example_world))
     = [ModelCall PrismaMain ''product'' ''findMany'' (Ref 0)] \<and>
   has_key ''writeToPrimary''
     (own_props
        (heap (snd (createMethodProxy fulfilling_backend ''product'' ''findMany'' (Ref 0)
                      example_world)))
        (Ref 0))"
  by (simp add: run_defs fulfilling_backend_def)

text \<open>
  C3, amended. The argument object passed by a write call never has the key
  \<^verbatim>\<open>writeToPrimary\<close>; the one passed by a read call has it exactly when the caller's
  bag has it.
\<close>

theorem routing_key_stripped_from_writes_only:
  "let (r, w') = createMethodProxy db modelName method args w
   in \<exists>target arg. calls w' = calls w @ [ModelCall target modelName method arg] \<and>
        (isWriteMethod method \<longrightarrow> \<not> has_key ''writeToPrimary'' (own_props (heap w') arg)) \<and>
        (\<not> isWriteMethod method \<longrightarrow>
           has_key ''writeToPrimary'' (own_props (heap w') arg) =
           has_key ''writeToPrimary'' (own_props (heap w) args))"
proof -
  obtain args' w1 where d: "default_args args w = (args', w1)"
    by (cases "default_args args w")
  note same = default_args_frame(1,3) [OF d]
  show ?thesis
  proof (cases "isWriteMethod method")
    case True
    from createMethodProxy_write [OF True d, of db modelName] True same show ?thesis
      by (simp add: Let_def has_key_delete_key)
  next
    case False
    from createMethodProxy_read [OF False d, of db modelName] False same show ?thesis
      by (simp add: Let_def)
  qed
qed

theorem routing_key_stripped_from_writes_only_witness:
  "isWriteMethod ''create'' \<and>
   \<not> has_key ''writeToPrimary''
      (own_props
         (heap (snd (createMethodProxy fulfilling_backend ''product'' ''create'' (Ref 0)
                       example_world)))
         (Ref 3)) \<and>
   \<not> isWriteMethod ''findMany'' \<and>
   has_key ''writeToPrimary'' (own_props (heap example_world) (Ref 0)) \<and>
   has_key ''writeToPrimary''
      (own_props
         (heap (snd (createMethodProxy fulfilling_backend ''product'' ''findMany'' (Ref 0)
                       example_world)))
         (Ref 0))"
proof -
  have run_create:
    "createMethodProxy fulfilling_backend ''product'' ''create'' (Ref 0) example_world =
       (Normal (Promise (Fulfilled Null)),
        \<lparr>heap = example_store @ [[(''data'', Ref 1)]],
         calls = [ModelCall PrismaPrimary ''product'' ''create'' (Ref 3)],
         console = []\<rparr>)"
    by (simp add: run_defs fulfilling_backend_def)
  have run_findMany:
    "createMethodProxy fulfilling_backend ''product'' ''findMany'' (Ref 0) example_world =
       (Normal (Promise (Fulfilled Null)),
        \<lparr>heap = example_store,
         calls = [ModelCall PrismaMain ''product'' ''findMany'' (Ref 0)],
         console = []\<rparr>)"
    by (simp add: run_defs fulfilling_backend_def)
  show ?thesis
    using routing_key_stripped_from_writes_only
            [of fulfilling_backend "''product''" "''create''" "Ref 0" example_world]
          routing_key_stripped_from_writes_only
            [of fulfilling_backend "''product''" "''findMany''" "Ref 0" example_world]
    by (simp add: run_create run_findMany) (simp add: run_defs)
qed

section \<open>Errors of forwarded calls\<close>

text \<open>
  What the client throws during the call passes through the catch block: an
  \<^verbatim>\<open>Error\<close> instance leaves it with \<^verbatim>\<open> (Method: <method>, Model: <entity>)\<close> appended
  to its message, or replaced by a \<^verbatim>\<open>TypeError\<close> when its message is read-only; any
  other value leaves it unchanged.
\<close>

lemma synchronous_throw_gets_context:
  "let (r, w') = createMethodProxy db modelName method args w;
       answer = db (calls w) (heap w') (last (calls w'))
   in (\<forall>message. answer = Throw (ErrorObj message) \<longrightarrow>
         r = Throw (ErrorObj (message @ '' (Method: '' @ method @ '', Model: '' @ modelName
                                @ '')''))) \<and>
      (\<forall>message. answer = Throw (ReadOnlyError message) \<longrightarrow>
         r = Throw (read_only_assign message)) \<and>
      (\<forall>v. answer = Throw (NonError v) \<longrightarrow> r = Throw (NonError v))"
  using createMethodProxy_result [of db modelName "method" "args" w]
  by (auto simp: Let_def add_context_def split: prod.splits)

lemma synchronous_throw_example:
  "fst (createMethodProxy error_throwing_backend ''product'' ''create'' (Ref 2) example_world)
     = Throw (ErrorObj ''unique violation (Method: create, Model: product)'')"
  by (simp add: run_defs error_throwing_backend_def)

text \<open>
  C6. The claim: when a forwarded call fails, the caller receives the error with the
  method and the entity appended to its message. The catch block is there to do so, but
  the function holding it is not \<^verbatim>\<open>async\<close> and does not await, so it sees only what the
  client throws during the call. When the main client's \<^verbatim>\<open>create\<close> on \<^verbatim>\<open>product\<close>
  fails the way an asynchronous client does, by returning a promise that rejects with
  \<^verbatim>\<open>Error("unique violation")\<close>, the proxy returns that promise as it is, and the caller
  awaiting it receives the error with the message \<^verbatim>\<open>unique violation\<close> and no suffix.
  The transaction wrapper of the same file awaits inside its \<^verbatim>\<open>try\<close> block.
\<close>

theorem rejected_promise_gets_no_context:
  "rejecting_backend [] (example_store @ [[(''where'', Ref 1)]])
     (ModelCall PrismaMain ''product'' ''create'' (Ref 3))
     = Normal (Promise (Rejected (ErrorObj ''unique violation''))) \<and>
   createMethodProxy rejecting_backend ''product'' ''create'' (Ref 2) example_world =
     (Normal (Promise (Rejected (ErrorObj ''unique violation''))),
      \<lparr>heap = example_store @ [[(''where'', Ref 1)]],
       calls = [ModelCall PrismaMain ''product'' ''create'' (Ref 3)],
       console = []\<rparr>) \<and>
   await (fst (createMethodProxy rejecting_backend ''product'' ''create'' (Ref 2) example_world))
     = Throw (ErrorObj ''unique violation'')"
  by (simp add: run_defs rejecting_backend_def)

section \<open>The caller's argument object\<close>

text \<open>
  C10. The proxy never changes the caller's argument object: after the call the object
  has the properties it had before, \<^verbatim>\<open>writeToPrimary\<close> included if it was there, and
  so has every other object that existed before the call. The key is deleted from the
  copy that \<open>cleanOptions\<close> allocates.
\<close>

theorem caller_argument_object_unchanged:
  assumes "a < length (heap w)"
  shows "let (r, w') = createMethodProxy db modelName method (Ref a) w
         in own_props (heap w') (Ref a) = own_props (heap w) (Ref a) \<and>
            has_key ''writeToPrimary'' (own_props (heap w') (Ref a)) =
              has_key ''writeToPrimary'' (own_props (heap w) (Ref a)) \<and>
            take (length (heap w)) (heap w') = heap w"
  using createMethodProxy_result [of db modelName "method" "Ref a" w] assms
  by (auto simp: Let_def nth_append split: prod.splits)

theorem caller_argument_object_unchanged_witness:
  "(0::nat) < length (heap example_world) \<and>
   own_props (heap example_world) (Ref 0) = [(''data'', Ref 1), (''writeToPrimary'', Bool True)] \<and>
   calls (snd (createMethodProxy fulfilling_backend ''product'' ''create'' (Ref 0) example_world))
     = [ModelCall PrismaPrimary ''product'' ''create'' (Ref 3)] \<and>
   own_props
     (heap (snd (createMethodProxy fulfilling_backend ''product'' ''create'' (Ref 0)
                   example_world)))
     (Ref 0) = [(''data'', Ref 1), (''writeToPrimary'', Bool True)]"
proof -
  have run_create:
    "createMethodProxy fulfilling_backend ''product'' ''create'' (Ref 0) example_world =
       (Normal (Promise (Fulfilled Null)),
        \<lparr>heap = example_store @ [[(''data'', Ref 1)]],
         calls = [ModelCall PrismaPrimary ''product'' ''create'' (Ref 3)],
         console = []\<rparr>)"
    by (simp add: run_defs fulfilling_backend_def)
  show ?thesis
    using caller_argument_object_unchanged
            [of 0 example_world fulfilling_backend "''product''" "''create''"]
    by (simp add: run_create) (simp add: run_defs)
qed

section \<open>The write classifier\<close>

text \<open>
  C4. \<open>isWriteMethod\<close> is true for exactly the seven names \<^verbatim>\<open>create\<close>, \<^verbatim>\<open>update\<close>,
  \<^verbatim>\<open>delete\<close>, \<^verbatim>\<open>upsert\<close>, \<^verbatim>\<open>createMany\<close>, \<^verbatim>\<open>updateMany\<close>, \<^verbatim>\<open>deleteMany\<close> and false
  for every other name. It is a function of the name alone.
\<close>

theorem isWriteMethod_exactly_seven:
  "isWriteMethod method =
     (method \<in> {''create'', ''update'', ''delete'', ''upsert'',
                 ''createMany'', ''updateMany'', ''deleteMany''})"
  by (simp add: isWriteMethod_def WRITE_METHODS_def)

section \<open>Transactions\<close>

lemma alloc_obj_eq: "alloc_obj ps w = (Ref (length (heap w)), w\<lparr>heap := heap w @ [ps]\<rparr>)"
  by (simp add: alloc_obj_def alloc_def)

lemma own_props_falsy: "\<not> truthy v \<Longrightarrow> own_props h v = []"
  by (cases v) auto

lemmas transaction_defs =
  createPrismaProxy_transaction_def alloc_obj_def alloc_def perform_def get_prop_def
  delete_key_def Let_def error_message_or_unknown_def options_world_def options_store_def

text \<open>
  C5. A transaction call makes exactly one call, handing the whole batch to the
  \<^verbatim>\<open>$transaction\<close> of the primary client when \<^verbatim>\<open>writeToPrimary\<close> is true and of the
  main client when it is false or absent (the code tests truthiness). The options object
  passed holds \<^verbatim>\<open>timeout\<close> and every other option of the caller except
  \<^verbatim>\<open>writeToPrimary\<close>. The promise returned settles as the client's call does.
\<close>

theorem transaction_runs_on_one_connection:
  "let (p, w') = createPrismaProxy_transaction db ops options w;
       target = (if truthy (get_prop (heap w) options ''writeToPrimary'')
                 then PrismaPrimary else PrismaMain)
   in \<exists>passed.
        calls w' = calls w @ [TransactionCall target ops passed] \<and>
        own_props (heap w') passed =
          (''timeout'', get_prop (heap w) options ''timeout'') #
          delete_key ''timeout'' (delete_key ''writeToPrimary'' (own_props (heap w) options)) \<and>
        p = (case await (db (calls w) (heap w') (TransactionCall target ops passed)) of
               Normal v \<Rightarrow> Fulfilled v
             | Throw error \<Rightarrow> Rejected error)"
proof (cases "truthy options")
  case True
  then show ?thesis
    by (simp add: createPrismaProxy_transaction_def alloc_obj_eq perform_def Let_def nth_append
          split: completion.splits)
next
  case False
  then show ?thesis
    by (simp add: createPrismaProxy_transaction_def alloc_obj_eq perform_def Let_def nth_append
          own_props_falsy get_prop_def delete_key_def split: completion.splits)
qed

theorem transaction_runs_on_one_connection_witness:
  "createPrismaProxy_transaction fulfilling_backend () (Ref 0) options_world =
     (Fulfilled Null,
      \<lparr>heap = options_store @
                [[(''isolationLevel'', Str ''Serializable'')],
                 [(''timeout'', Num 5000), (''isolationLevel'', Str ''Serializable'')]],
       calls = [TransactionCall PrismaPrimary () (Ref 3)],
       console = []\<rparr>) \<and>
   createPrismaProxy_transaction fulfilling_backend () (Ref 1) options_world =
     (Fulfilled Null,
      \<lparr>heap = options_store @
                [[(''maxWait'', Num 2000)],
                 [(''timeout'', Undefined), (''maxWait'', Num 2000)]],
       calls = [TransactionCall PrismaMain () (Ref 3)],
       console = []\<rparr>) \<and>
   createPrismaProxy_transaction error_throwing_backend () Undefined options_world =
     (Rejected (ErrorObj ''unique violation''),
      \<lparr>heap = options_store @ [[], [], [(''timeout'', Undefined)]],
       calls = [TransactionCall PrismaMain () (Ref 4)],
       console = [ConsoleError ''Transaction failed: unique violation'' None]\<rparr>)"
  using transaction_runs_on_one_connection [of fulfilling_backend "()" "Ref 0" options_world]
        transaction_runs_on_one_connection [of fulfilling_backend "()" "Ref 1" options_world]
        transaction_runs_on_one_connection [of error_throwing_backend "()" Undefined options_world]
  by (simp add: transaction_defs fulfilling_backend_def error_throwing_backend_def)

section \<open>Health check\<close>

lemmas health_defs =
  checkDatabaseHealth_def perform_def Let_def error_message_or_unknown_def undefined_read_def

text \<open>
  C7. \<open>checkDatabaseHealth\<close> always returns a fulfilled promise. Its value is healthy
  with the detail \<^verbatim>\<open>Database connection successful\<close> when the query on the main client
  succeeds; unhealthy with the error's message when the query throws or rejects with an
  \<^verbatim>\<open>Error\<close> instance, frozen or not; unhealthy with \<^verbatim>\<open>Unknown error\<close> when what is thrown is not an
  \<^verbatim>\<open>Error\<close> instance and so carries no message the code reads.
\<close>

theorem checkDatabaseHealth_always_returns:
  "let (p, w') = checkDatabaseHealth isServer db w;
       outcome = (if isServer
                  then await (db (calls w) (heap w) (QueryRaw PrismaMain ''SELECT 1''))
                  else Throw (undefined_read ''$queryRaw''))
   in (\<exists>h. p = Fulfilled h) \<and>
      (\<forall>v. outcome = Normal v \<longrightarrow>
         p = Fulfilled \<lparr>status = Healthy, details = ''Database connection successful''\<rparr>) \<and>
      (\<forall>message. outcome = Throw (ErrorObj message) \<longrightarrow>
         p = Fulfilled \<lparr>status = Unhealthy, details = message\<rparr>) \<and>
      (\<forall>message. outcome = Throw (ReadOnlyError message) \<longrightarrow>
         p = Fulfilled \<lparr>status = Unhealthy, details = message\<rparr>) \<and>
      (\<forall>x. outcome = Throw (NonError x) \<longrightarrow>
         p = Fulfilled \<lparr>status = Unhealthy, details = ''Unknown error''\<rparr>) \<and>
      calls w' = (if isServer then calls w @ [QueryRaw PrismaMain ''SELECT 1''] else calls w)"
  by (auto simp: health_defs split: completion.splits thrown.splits)

theorem checkDatabaseHealth_always_returns_witness:
  "await (fulfilling_backend [] example_store (QueryRaw PrismaMain ''SELECT 1'')) = Normal Null \<and>
   fst (checkDatabaseHealth True fulfilling_backend example_world) =
     Fulfilled \<lparr>status = Healthy, details = ''Database connection successful''\<rparr> \<and>
   await (rejecting_backend [] example_store (QueryRaw PrismaMain ''SELECT 1'')) =
     Throw (ErrorObj ''unique violation'') \<and>
   fst (checkDatabaseHealth True rejecting_backend example_world) =
     Fulfilled \<lparr>status = Unhealthy, details = ''unique violation''\<rparr> \<and>
   await (string_throwing_backend [] example_store (QueryRaw PrismaMain ''SELECT 1'')) =
     Throw (NonError (Str ''unique violation'')) \<and>
   fst (checkDatabaseHealth True string_throwing_backend example_world) =
     Fulfilled \<lparr>status = Unhealthy, details = ''Unknown error''\<rparr>"
  using checkDatabaseHealth_always_returns [of True fulfilling_backend example_world]
        checkDatabaseHealth_always_returns [of True rejecting_backend example_world]
        checkDatabaseHealth_always_returns [of True string_throwing_backend example_world]
  by (simp add: health_defs example_world_def fulfilling_backend_def rejecting_backend_def
        string_throwing_backend_def)

section \<open>Shutdown\<close>

lemmas disconnect_defs =
  disconnectPrisma_def disconnect_failed_def perform_def Let_def closing_once_backend_def
  example_world_def

text \<open>
  One call of \<open>disconnectPrisma\<close>, with the settled answers of the two disconnect
  calls: it fulfils; on the server it writes the success line when both disconnects
  succeed, and otherwise the error line with an error that one of them raised.
\<close>

lemma disconnectPrisma_run:
  "let a1 = await (db (calls w) (heap w) (Disconnect PrismaMain));
       a2 = await (db (calls w @ [Disconnect PrismaMain]) (heap w) (Disconnect PrismaPrimary))
   in \<exists>w'. disconnectPrisma isServer db w = (Fulfilled (), w') \<and>
        (if \<not> isServer then w' = w
         else if \<exists>v1 v2. a1 = Normal v1 \<and> a2 = Normal v2
           then console w' =
                  console w @ [ConsoleLog ''Prisma clients disconnected successfully'']
           else \<exists>error.
                  console w' =
                    console w @
                    [ConsoleError ''Error disconnecting Prisma clients:'' (Some error)] \<and>
                  (a1 = Throw error \<or> a2 = Throw error))"
proof (cases isServer)
  case False
  then show ?thesis
    by (simp add: disconnectPrisma_def)
next
  case True
  show ?thesis
  proof (cases "db (calls w) (heap w) (Disconnect PrismaMain)")
    case (Throw e)
    with True show ?thesis
      by (simp add: disconnectPrisma_def disconnect_failed_def perform_def)
  next
    case r1: (Normal p1)
    show ?thesis
    proof (cases "db (calls w @ [Disconnect PrismaMain]) (heap w) (Disconnect PrismaPrimary)")
      case (Throw e)
      with True r1 show ?thesis
        by (simp add: disconnectPrisma_def disconnect_failed_def perform_def)
    next
      case r2: (Normal p2)
      show ?thesis
      proof (cases p1)
        case (Plain v1)
        show ?thesis
        proof (cases p2)
          case (Plain v2)
          with True r1 r2 \<open>p1 = Plain v1\<close> show ?thesis
            by (simp add: disconnectPrisma_def disconnect_failed_def perform_def)
        next
          case (Promise q2)
          with True r1 r2 \<open>p1 = Plain v1\<close> show ?thesis
            by (cases q2) (simp_all add: disconnectPrisma_def disconnect_failed_def perform_def)
        qed
      next
        case (Promise q1)
        show ?thesis
        proof (cases q1)
          case (Rejected e)
          with True r1 r2 \<open>p1 = Promise q1\<close> show ?thesis
            by (simp add: disconnectPrisma_def disconnect_failed_def perform_def)
        next
          case (Fulfilled v1)
          show ?thesis
          proof (cases p2)
            case (Plain v2)
            with True r1 r2 \<open>p1 = Promise q1\<close> \<open>q1 = Fulfilled v1\<close> show ?thesis
              by (simp add: disconnectPrisma_def disconnect_failed_def perform_def)
          next
            case (Promise q2)
            with True r1 r2 \<open>p1 = Promise q1\<close> \<open>q1 = Fulfilled v1\<close> show ?thesis
              by (cases q2)
                 (simp_all add: disconnectPrisma_def disconnect_failed_def perform_def)
          qed
        qed
      qed
    qed
  qed
qed

text \<open>
  C8. \<open>disconnectPrisma\<close> always returns a fulfilled promise, whatever the two
  disconnect calls do, and so does a second call made after the first. A shutdown error
  is logged: on the server, when a disconnect call throws or its promise rejects, the
  call writes the error line with an error that a disconnect raised, and it writes the
  success line only when both disconnects succeed. Outside the server it does nothing.
\<close>

theorem disconnectPrisma_never_raises:
  "let (p1, w1) = disconnectPrisma isServer db w;
       (p2, w2) = disconnectPrisma isServer db w1;
       a1 = await (db (calls w) (heap w) (Disconnect PrismaMain));
       a2 = await (db (calls w @ [Disconnect PrismaMain]) (heap w) (Disconnect PrismaPrimary))
   in p1 = Fulfilled () \<and> p2 = Fulfilled () \<and>
      (if \<not> isServer then w1 = w
       else if \<exists>v1 v2. a1 = Normal v1 \<and> a2 = Normal v2
         then console w1 =
                console w @ [ConsoleLog ''Prisma clients disconnected successfully'']
         else \<exists>error.
                console w1 =
                  console w @
                  [ConsoleError ''Error disconnecting Prisma clients:'' (Some error)] \<and>
                (a1 = Throw error \<or> a2 = Throw error))"
proof -
  obtain w1 where 1: "disconnectPrisma isServer db w = (Fulfilled (), w1)"
    using disconnectPrisma_run [of db w isServer] by (auto simp: Let_def)
  obtain w2 where 2: "disconnectPrisma isServer db w1 = (Fulfilled (), w2)"
    using disconnectPrisma_run [of db w1 isServer] by (auto simp: Let_def)
  from disconnectPrisma_run [of db w isServer] 1 2 show ?thesis
    by (simp add: Let_def)
qed

theorem disconnectPrisma_never_raises_witness:
  "disconnectPrisma True closing_once_backend example_world =
     (Fulfilled (),
      \<lparr>heap = example_store,
       calls = [Disconnect PrismaMain, Disconnect PrismaPrimary],
       console = [ConsoleLog ''Prisma clients disconnected successfully'']\<rparr>) \<and>
   disconnectPrisma True closing_once_backend
     (snd (disconnectPrisma True closing_once_backend example_world)) =
     (Fulfilled (),
      \<lparr>heap = example_store,
       calls = [Disconnect PrismaMain, Disconnect PrismaPrimary, Disconnect PrismaMain],
       console = [ConsoleLog ''Prisma clients disconnected successfully'',
                  ConsoleError ''Error disconnecting Prisma clients:''
                    (Some (ErrorObj ''already disconnected''))]\<rparr>) \<and>
   disconnectPrisma True rejecting_backend example_world =
     (Fulfilled (),
      \<lparr>heap = example_store,
       calls = [Disconnect PrismaMain, Disconnect PrismaPrimary],
       console = [ConsoleError ''Error disconnecting Prisma clients:''
                    (Some (ErrorObj ''unique violation''))]\<rparr>)"
  using disconnectPrisma_never_raises [of True closing_once_backend example_world]
        disconnectPrisma_never_raises [of True rejecting_backend example_world]
  by (simp add: disconnect_defs rejecting_backend_def)

section \<open>The primary client's target\<close>

text \<open>
  C9. On the server, with a valid environment and no cached primary client, when
  \<^verbatim>\<open>DATABASE_PRIMARY_URL\<close> is unset, empty or equal to \<^verbatim>\<open>DATABASE_URL\<close>, the module
  loads and the primary client is constructed for the URL of \<^verbatim>\<open>DATABASE_URL\<close>.
\<close>

theorem primary_falls_back_to_main_url:
  assumes "validateEnvironment True e = Normal ()"
    and "global_prismaPrimary g = None"
    and "DATABASE_PRIMARY_URL e = None \<or> DATABASE_PRIMARY_URL e = Some [] \<or>
         DATABASE_PRIMARY_URL e = DATABASE_URL e"
  shows "\<exists>c primary url.
           module_init True e g = Normal c \<and> prismaPrimary c = Some primary \<and>
           DATABASE_URL e = Some url \<and> datasources_db_url primary = url"
proof -
  from assms(1) obtain url where url: "DATABASE_URL e = Some url" "url \<noteq> []"
    by (auto simp: validateEnvironment_def split: option.splits if_splits)
  with assms(3) have "env_or (DATABASE_PRIMARY_URL e) (DATABASE_URL e) = Some url"
    by (auto simp: env_or_def)
  with assms(1,2) url show ?thesis
    by (auto simp: module_init_def cached_or_new_def createPrismaOptions_def
          split: option.splits)
qed

theorem primary_falls_back_to_main_url_witness:
  "validateEnvironment True example_env = Normal () \<and>
   global_prismaPrimary empty_globals = None \<and>
   DATABASE_PRIMARY_URL example_env = None \<and>
   DATABASE_URL example_env = Some ''postgresql://db.internal/shop'' \<and>
   (\<exists>c primary.
      module_init True example_env empty_globals = Normal c \<and>
      prismaPrimary c = Some primary \<and>
      datasources_db_url primary = ''postgresql://db.internal/shop'')"
proof -
  have valid: "validateEnvironment True example_env = Normal ()"
    by (simp add: validateEnvironment_def example_env_def startsWith_def)
  have "global_prismaPrimary empty_globals = None"
    by (simp add: empty_globals_def)
  from primary_falls_back_to_main_url [OF valid this] valid show ?thesis
    by (simp add: example_env_def empty_globals_def)
qed


end
